theory Spec2Isabelle
  imports Main
begin

section \<open>Values, errors and the world outside the controller\<close>

text \<open>
  The source is \<^verbatim>\<open>src/index.ts\<close>. A \<^verbatim>\<open>CaseType\<close> is a string at run time (the
  cast \<^verbatim>\<open>["B", "C"] as CaseType[]\<close> puts a \<^verbatim>\<open>"C"\<close> there that the union type does
  not list), so it is a \<open>string\<close> here.

  A value of type \<^verbatim>\<open>CaseType | CaseType[]\<close> is a string or a reference to an array
  object. Arrays live in a store and a value only holds the address: the key comparison
  of a JavaScript \<^verbatim>\<open>Map\<close> (SameValueZero) and \<^verbatim>\<open>===\<close> compare two strings by
  their characters and two arrays by their identity, which is HOL equality on \<open>jsval\<close>.
\<close>

type_synonym CaseType = string

datatype jsval = Str CaseType | Ref nat

text \<open>
  The two \<^verbatim>\<open>new Error(msg)\<close> of the source keep their messages; \<open>TypeError\<close> is what
  the engine throws when a function that does not exist is called.
\<close>

datatype error = Error string | TypeError string

abbreviation InvalidInput :: error where
  "InvalidInput \<equiv> Error ''param type is not valid''"

abbreviation NotRegistered :: error where
  "NotRegistered \<equiv> Error ''types not exist in plugin map''"

text \<open>
  What the functions of the source can observe or change outside the controller: the
  store of array objects (an address is an index; nothing in the source writes to an
  array after its creation) and the calls made to the browser, \<^verbatim>\<open>confirm(msg)\<close> and
  \<^verbatim>\<open>console.warn(msg)\<close>, in order. The answer of \<^verbatim>\<open>confirm\<close> is discarded everywhere.
\<close>

datatype event = Confirm string | Warn string

record world =
  arrays :: "CaseType list list"
  dialogs :: "event list"

text \<open>
  A call of a JavaScript function: it starts in a world and ends, returning or throwing,
  in a world; what it did before a throw stays done.
\<close>

type_synonym ('w, 'a) js = "'w \<Rightarrow> (error + 'a) \<times> 'w"

definition deref :: "world \<Rightarrow> nat \<Rightarrow> CaseType list option" where
  "deref w a = (if a < length (arrays w) then Some (arrays w ! a) else None)"

text \<open>An array literal creates a new object, at an address no earlier object has.\<close>

definition alloc :: "CaseType list \<Rightarrow> world \<Rightarrow> jsval \<times> world" where
  "alloc xs w = (Ref (length (arrays w)), w\<lparr>arrays := arrays w @ [xs]\<rparr>)"

definition confirm :: "string \<Rightarrow> (world, unit) js" where
  "confirm msg w = (Inr (), w\<lparr>dialogs := dialogs w @ [Confirm msg]\<rparr>)"

definition console_warn :: "string \<Rightarrow> (world, unit) js" where
  "console_warn msg w = (Inr (), w\<lparr>dialogs := dialogs w @ [Warn msg]\<rparr>)"

section \<open>The conditional chains\<close>

text \<open>\<^verbatim>\<open>handleType\<close>: the empty tag throws first; a tag of no branch falls off the end.\<close>

definition handleType :: "CaseType \<Rightarrow> (world, unit) js" where
  "handleType type w =
     (if type = '''' then (Inl (Error ''param type is not valid''), w)
      else if type = ''A'' then confirm ''I am A case'' w
      else if type = ''B'' then confirm ''I am B case'' w
      else if type = ''N'' then confirm ''I am N case'' w
      else (Inr (), w))"

text \<open>\<^verbatim>\<open>handleTypeBySwitch\<close>: the same check, then the switch with its default.\<close>

definition handleTypeBySwitch :: "CaseType \<Rightarrow> (world, unit) js" where
  "handleTypeBySwitch type w =
     (if type = '''' then (Inl (Error ''param type is not valid''), w)
      else if type = ''A'' then confirm ''I am A case'' w
      else if type = ''B'' then confirm ''I am B case'' w
      else if type = ''N'' then confirm ''I am N case'' w
      else console_warn ''type is not handled'' w)"

section \<open>Plugins\<close>

text \<open>
  \<^verbatim>\<open>interface CasePlugin\<close>. \<open>condition\<close> and \<open>action\<close> are arbitrary JavaScript
  functions: they may read and change the world and may throw. \<open>'p\<close> is the type of
  \<^verbatim>\<open>params\<close> (\<^verbatim>\<open>unknown\<close> in the source), \<open>'w\<close> the world they act on. The world
  does not contain the controller: \<^verbatim>\<open>pluginMap\<close> is a private field, and a plugin is
  taken not to call back into the controller that runs it (none of the source does).
  Handlers that do call back are the subject of a later section.
\<close>

record ('p, 'w) CasePlugin =
  condition :: "jsval \<Rightarrow> ('w, bool) js"
  action :: "'p \<Rightarrow> ('w, unit) js"
  targetTypes :: jsval

definition casePluginA :: "('p, world) CasePlugin" where
  "casePluginA =
     \<lparr> condition = (\<lambda>type w. (Inr (Str ''A'' = type), w)),
       action = (\<lambda>params. confirm ''I am A case''),
       targetTypes = Str ''A'' \<rparr>"

text \<open>
  \<^verbatim>\<open>casePluginBOrC\<close>. Its \<^verbatim>\<open>targetTypes\<close> is the array object the literal of line 135
  creates when the module is loaded; \<open>bc\<close> is its address. The condition calls
  \<^verbatim>\<open>types.filter\<close>: on an array it keeps the elements that
  \<^verbatim>\<open>casePluginBOrC.targetTypes.includes\<close>, and the result is whether any is left; on a
  string there is no \<^verbatim>\<open>filter\<close> and the call throws a TypeError. (An address with no
  object cannot arise in JavaScript; the model answers it with a TypeError too.)
\<close>

definition casePluginBOrC :: "nat \<Rightarrow> ('p, world) CasePlugin" where
  "casePluginBOrC bc =
     \<lparr> condition = (\<lambda>types w.
         (case types of
            Str s \<Rightarrow> (Inl (TypeError ''types.filter is not a function''), w)
          | Ref a \<Rightarrow>
              (case (deref w a, deref w bc) of
                 (Some xs, Some targets) \<Rightarrow>
                   (Inr (length (filter (\<lambda>v. v \<in> set targets) xs) \<noteq> 0), w)
               | _ \<Rightarrow> (Inl (TypeError ''no such object''), w)))),
       action = (\<lambda>params. confirm ''I am B Or C case''),
       targetTypes = Ref bc \<rparr>"

definition casePluginN :: "('p, world) CasePlugin" where
  "casePluginN =
     \<lparr> condition = (\<lambda>type w. (Inr (Str ''N'' = type), w)),
       action = (\<lambda>params. confirm ''I am N case''),
       targetTypes = Str ''N'' \<rparr>"

text \<open>
  The world once the module is loaded: one array object, the \<^verbatim>\<open>targetTypes\<close> of
  \<^verbatim>\<open>casePluginBOrC\<close>, at address 0, and no dialog shown yet.
\<close>

definition loaded :: world where
  "loaded = \<lparr> arrays = [[''B'', ''C'']], dialogs = [] \<rparr>"

section \<open>The controller\<close>

text \<open>
  \<^verbatim>\<open>class PluginController\<close> has one field, a \<^verbatim>\<open>Map\<close> that is only ever read by
  \<^verbatim>\<open>get\<close> and written by \<^verbatim>\<open>set\<close>, \<^verbatim>\<open>delete\<close> and \<^verbatim>\<open>clear\<close>: a partial function from
  keys to plugins. An operation of the class takes the controller and the world and gives back how it
  ended (\<open>Inr ()\<close> returned, \<open>Inl e\<close> threw \<open>e\<close>), the controller and the world.
\<close>

record ('p, 'w) PluginController =
  pluginMap :: "jsval \<Rightarrow> ('p, 'w) CasePlugin option"

type_synonym ('p, 'w) outcome = "(error + unit) \<times> ('p, 'w) PluginController \<times> 'w"

type_synonym ('p, 'w) operation = "('p, 'w) PluginController \<Rightarrow> 'w \<Rightarrow> ('p, 'w) outcome"

text \<open>\<^verbatim>\<open>new PluginController()\<close>: the map is empty.\<close>

definition new_PluginController :: "('p, 'w) PluginController" where
  "new_PluginController = \<lparr> pluginMap = Map.empty \<rparr>"

text \<open>\<^verbatim>\<open>use(plugin) { this.pluginMap.set(plugin.targetTypes, plugin); }\<close>\<close>

definition use :: "('p, 'w) CasePlugin \<Rightarrow> ('p, 'w) operation" where
  "use plugin this w =
     (Inr (), this\<lparr>pluginMap := (pluginMap this)(targetTypes plugin \<mapsto> plugin)\<rparr>, w)"

text \<open>
  \<^verbatim>\<open>installPlugins(plugins) { plugins.forEach((p) => this.use(p)); }\<close>: the elements in
  order; a throw inside the callback would end the loop.
\<close>

fun installPlugins :: "('p, 'w) CasePlugin list \<Rightarrow> ('p, 'w) operation" where
  "installPlugins [] this w = (Inr (), this, w)"
| "installPlugins (p # plugins) this w =
     (case use p this w of
        (Inl e, this', w') \<Rightarrow> (Inl e, this', w')
      | (Inr u, this', w') \<Rightarrow> installPlugins plugins this' w')"

text \<open>
  \<^verbatim>\<open>run(types, params)\<close>, lines 155 to 164: the lookup, then the plugin's own condition
  on the same \<^verbatim>\<open>types\<close>, then its action on \<^verbatim>\<open>params\<close>; no plugin, the throw.
\<close>

definition run :: "jsval \<Rightarrow> 'p \<Rightarrow> ('p, 'w) operation" where
  "run types params this w =
     (case pluginMap this types of
        Some plugin \<Rightarrow>
          (case condition plugin types w of
             (Inl e, w') \<Rightarrow> (Inl e, this, w')
           | (Inr c, w') \<Rightarrow>
               (if c then (case action plugin params w' of (r, w'') \<Rightarrow> (r, this, w''))
                else (Inr (), this, w')))
      | None \<Rightarrow> (Inl (Error ''types not exist in plugin map''), this, w))"

text \<open>
  \<^verbatim>\<open>unuse(types: CaseType[]) { this.pluginMap.delete(types); }\<close>. The signature asks for
  an array; \<^verbatim>\<open>delete\<close> itself takes any key, and so does the model.
\<close>

definition unuse :: "jsval \<Rightarrow> ('p, 'w) operation" where
  "unuse types this w = (Inr (), this\<lparr>pluginMap := (pluginMap this)(types := None)\<rparr>, w)"

text \<open>\<^verbatim>\<open>clearPlugins() { this.pluginMap.clear(); }\<close>\<close>

definition clearPlugins :: "('p, 'w) operation" where
  "clearPlugins this w = (Inr (), this\<lparr>pluginMap := Map.empty\<rparr>, w)"

section \<open>The demo\<close>

text \<open>One statement after another: a throw skips the rest.\<close>

definition next_stmt :: "('p, 'w) outcome \<Rightarrow> ('p, 'w) operation \<Rightarrow> ('p, 'w) outcome" where
  "next_stmt r m =
     (case r of
        (Inl e, this, w) \<Rightarrow> (Inl e, this, w)
      | (Inr u, this, w) \<Rightarrow> m this w)"

text \<open>
  \<^verbatim>\<open>handleClick\<close> calls \<^verbatim>\<open>run(types)\<close> with no \<^verbatim>\<open>params\<close>: the plugins receive
  \<^verbatim>\<open>undefined\<close>, written \<open>()\<close>.
\<close>

definition handleClick :: "jsval \<Rightarrow> (unit, world) operation" where
  "handleClick types this w = run types () this w"

text \<open>
  \<^verbatim>\<open>Demo\<close>, lines 177 to 195, on the controller \<^verbatim>\<open>pluginController\<close> of line 175. The
  array literal of line 188 is a new object, made when that line is reached.
\<close>

definition pluginController :: "(unit, world) PluginController" where
  "pluginController = new_PluginController"

definition Demo :: "(unit, world) operation" where
  "Demo this w =
     next_stmt (installPlugins [casePluginA, casePluginBOrC 0, casePluginN] this w)
       (\<lambda>this w. next_stmt (handleClick (Str ''A'') this w)
       (\<lambda>this w. next_stmt (handleClick (Str ''B'') this w)
       (\<lambda>this w. next_stmt (case alloc [''B'', ''C''] w of (k, w') \<Rightarrow> handleClick k this w')
       (\<lambda>this w. next_stmt (handleClick (Str ''N'') this w)
       clearPlugins))))"

section \<open>Reading an outcome\<close>

definition ended :: "('p, 'w) outcome \<Rightarrow> error + unit" where
  "ended r = fst r"

definition controller_after :: "('p, 'w) outcome \<Rightarrow> ('p, 'w) PluginController" where
  "controller_after r = fst (snd r)"

definition world_after :: "('p, 'w) outcome \<Rightarrow> 'w" where
  "world_after r = snd (snd r)"

text \<open>The controller of the demo once line 178 has run.\<close>

definition installed :: "(unit, world) PluginController" where
  "installed =
     controller_after
       (installPlugins [casePluginA, casePluginBOrC 0, casePluginN] pluginController loaded)"

section \<open>Handlers that can reach the controller\<close>

text \<open>
  \<^verbatim>\<open>plugin.condition(types)\<close> and \<^verbatim>\<open>plugin.action(params)\<close> are calls of arbitrary
  functions, and \<^verbatim>\<open>use\<close>, \<^verbatim>\<open>unuse\<close>, \<^verbatim>\<open>clearPlugins\<close> and \<^verbatim>\<open>run\<close> are public: a handler
  that holds the controller (the module has it in \<^verbatim>\<open>pluginController\<close>, line 175) can
  call them while \<^verbatim>\<open>run\<close> is running it. For such handlers the state a call starts and
  ends in holds the map as well. The map of a JavaScript \<^verbatim>\<open>Map\<close> holds references to
  the plugin objects, so here it sends a key to the address of a plugin object, and the
  objects themselves (never written to in the source) are given by address.
\<close>

record 'w machine =
  registry :: "jsval \<Rightarrow> nat option"
  outside :: 'w

type_synonym ('w, 'a) call = "'w machine \<Rightarrow> (error + 'a) \<times> 'w machine"

record ('p, 'w) handler =
  on_condition :: "jsval \<Rightarrow> ('w, bool) call"
  on_action :: "'p \<Rightarrow> ('w, unit) call"
  target :: jsval

text \<open>The methods of the class on this state, from the same lines of the source.\<close>

definition use_reentrant :: "(nat \<Rightarrow> ('p, 'w) handler) \<Rightarrow> nat \<Rightarrow> ('w, unit) call" where
  "use_reentrant objects plugin m =
     (Inr (), m\<lparr>registry := (registry m)(target (objects plugin) \<mapsto> plugin)\<rparr>)"

definition run_reentrant ::
  "(nat \<Rightarrow> ('p, 'w) handler) \<Rightarrow> jsval \<Rightarrow> 'p \<Rightarrow> ('w, unit) call" where
  "run_reentrant objects types params m =
     (case registry m types of
        Some plugin \<Rightarrow>
          (case on_condition (objects plugin) types m of
             (Inl e, m') \<Rightarrow> (Inl e, m')
           | (Inr c, m') \<Rightarrow>
               (if c then on_action (objects plugin) params m' else (Inr (), m')))
      | None \<Rightarrow> (Inl (Error ''types not exist in plugin map''), m))"

definition unuse_reentrant :: "jsval \<Rightarrow> ('w, unit) call" where
  "unuse_reentrant types m = (Inr (), m\<lparr>registry := (registry m)(types := None)\<rparr>)"

definition clearPlugins_reentrant :: "('w, unit) call" where
  "clearPlugins_reentrant m = (Inr (), m\<lparr>registry := Map.empty\<rparr>)"

text \<open>
  A plugin of the earlier sections as a handler of this kind: its functions act on the
  world outside and leave the map alone.
\<close>

definition detached :: "('p, 'w) CasePlugin \<Rightarrow> ('p, 'w) handler" where
  "detached plugin =
     \<lparr> on_condition = (\<lambda>types m.
         (case condition plugin types (outside m) of (r, w') \<Rightarrow> (r, m\<lparr>outside := w'\<rparr>))),
       on_action = (\<lambda>params m.
         (case action plugin params (outside m) of (r, w') \<Rightarrow> (r, m\<lparr>outside := w'\<rparr>))),
       target = targetTypes plugin \<rparr>"

text \<open>
  A plugin that is not in the source but that its types admit, written against the
  controller \<^verbatim>\<open>c\<close> it is installed in:
  \<^verbatim>\<open>{ targetTypes: "A", condition: (t) => true, action: (p) => c.clearPlugins() }\<close>.
\<close>

definition clearing :: "(unit, world) handler" where
  "clearing =
     \<lparr> on_condition = (\<lambda>types m. (Inr True, m)),
       on_action = (\<lambda>params. clearPlugins_reentrant),
       target = Str ''A'' \<rparr>"

section \<open>Facts about the demo and about installing\<close>

lemma installed_pluginMap:
  "pluginMap installed =
     [Str ''A'' \<mapsto> casePluginA, Ref 0 \<mapsto> casePluginBOrC 0, Str ''N'' \<mapsto> casePluginN]"
  by (simp add: installed_def controller_after_def use_def pluginController_def
      new_PluginController_def casePluginA_def casePluginBOrC_def casePluginN_def)

text \<open>
  The demo as written stops at line 186: \<^verbatim>\<open>"B"\<close> is not a key of the map, so
  \<^verbatim>\<open>handleClick("B")\<close> throws and lines 188 to 194 are never reached. Only the dialog of
  plugin A has been shown, and the three plugins stay installed.
\<close>

lemma Demo_throws:
  "Demo pluginController loaded =
     (Inl NotRegistered, installed, loaded\<lparr>dialogs := [Confirm ''I am A case'']\<rparr>)"
  by (simp add: Demo_def installed_def controller_after_def next_stmt_def handleClick_def run_def
      use_def pluginController_def new_PluginController_def casePluginA_def casePluginBOrC_def
      casePluginN_def confirm_def loaded_def)

text \<open>
  With the very array object that \<^verbatim>\<open>casePluginBOrC.targetTypes\<close> holds as the argument,
  \<^verbatim>\<open>run\<close> finds the plugin and shows its dialog, and \<^verbatim>\<open>unuse\<close> removes it.
\<close>

lemma run_same_array_invokes:
  "run (Ref 0) () installed loaded =
     (Inr (), installed, loaded\<lparr>dialogs := [Confirm ''I am B Or C case'']\<rparr>)"
  by (simp add: run_def installed_pluginMap casePluginBOrC_def deref_def confirm_def loaded_def)

lemma run_after_unuse_same_array:
  "run (Ref 0) () (controller_after (unuse (Ref 0) installed loaded)) loaded =
     (Inl NotRegistered, controller_after (unuse (Ref 0) installed loaded), loaded)"
  by (simp add: run_def unuse_def controller_after_def)

text \<open>\<^verbatim>\<open>unuse\<close> with a new array of the same elements removes nothing.\<close>

lemma unuse_fresh_array_keeps:
  "unuse (Ref 1) installed w = (Inr (), installed, w)"
  by (simp add: unuse_def installed_pluginMap)

text \<open>
  A plugin may be registered under the empty tag (\<^verbatim>\<open>""\<close> is a \<^verbatim>\<open>CaseType\<close>), and
  \<^verbatim>\<open>run("")\<close> then runs its action.
\<close>

lemma run_empty_tag_registered:
  "run (Str '''') ()
     (controller_after
        (use (casePluginA\<lparr>condition := (\<lambda>type w. (Inr (Str '''' = type), w)),
                          targetTypes := Str ''''\<rparr>) pluginController loaded))
     loaded =
   (Inr (),
    controller_after
      (use (casePluginA\<lparr>condition := (\<lambda>type w. (Inr (Str '''' = type), w)),
                        targetTypes := Str ''''\<rparr>) pluginController loaded),
    loaded\<lparr>dialogs := [Confirm ''I am A case'']\<rparr>)"
  by (simp add: run_def use_def controller_after_def casePluginA_def confirm_def loaded_def)

lemma find_snoc:
  "find P (xs @ [x]) =
     (case find P xs of Some y \<Rightarrow> Some y | None \<Rightarrow> if P x then Some x else None)"
  by (induction xs) simp_all

lemma installPlugins_snoc:
  "installPlugins (ps @ [q]) this w = next_stmt (installPlugins ps this w) (use q)"
  by (induction ps arbitrary: this w) (simp_all add: next_stmt_def use_def)

lemma installPlugins_foldl:
  "installPlugins ps this w = foldl (\<lambda>r q. next_stmt r (use q)) (Inr (), this, w) ps"
proof (induction ps rule: rev_induct)
  case Nil
  show ?case by simp
next
  case (snoc q ps)
  then show ?case by (simp add: installPlugins_snoc)
qed

lemma installPlugins_pluginMap:
  "pluginMap (controller_after (installPlugins ps this w)) K =
     (case find (\<lambda>q. targetTypes q = K) (rev ps) of
        Some q \<Rightarrow> Some q
      | None \<Rightarrow> pluginMap this K)"
proof (induction ps arbitrary: this)
  case Nil
  show ?case by (simp add: controller_after_def)
next
  case (Cons q ps)
  have "pluginMap (controller_after (installPlugins (q # ps) this w)) K =
        pluginMap (controller_after
          (installPlugins ps (this\<lparr>pluginMap := (pluginMap this)(targetTypes q \<mapsto> q)\<rparr>) w)) K"
    by (simp add: use_def)
  also have "\<dots> = (case find (\<lambda>q. targetTypes q = K) (rev ps) of
        Some r \<Rightarrow> Some r
      | None \<Rightarrow> ((pluginMap this)(targetTypes q \<mapsto> q)) K)"
    by (simp add: Cons.IH split: option.splits)
  also have "\<dots> = (case find (\<lambda>q. targetTypes q = K) (rev (q # ps)) of
        Some r \<Rightarrow> Some r
      | None \<Rightarrow> pluginMap this K)"
    by (simp add: find_snoc split: option.splits)
  finally show ?case .
qed

text \<open>
  For plugins that leave the controller alone, \<^verbatim>\<open>run\<close> on the state with the map in it
  is \<^verbatim>\<open>run\<close> as defined first: same ending, same world, map untouched.
\<close>

lemma run_reentrant_detached:
  assumes "registry m K = Some plugin" and "objects plugin = detached H"
    and "pluginMap this K = Some H"
  shows "run_reentrant objects K p m =
           (ended (run K p this (outside m)),
            m\<lparr>outside := world_after (run K p this (outside m))\<rparr>)"
  using assms
  by (simp add: run_reentrant_def run_def detached_def ended_def world_after_def
      split: prod.splits sum.splits)

lemma run_reentrant_unregistered:
  assumes "registry m K = None" and "pluginMap this K = None"
  shows "run_reentrant objects K p m =
           (ended (run K p this (outside m)),
            m\<lparr>outside := world_after (run K p this (outside m))\<rparr>)"
  using assms
  by (simp add: run_reentrant_def run_def ended_def world_after_def)

section \<open>Dispatch\<close>

text \<open>
  C1. When the map holds handler \<open>H\<close> under key \<open>K\<close> and \<open>H\<close>'s condition, called on
  \<open>K\<close>, returns true, \<^verbatim>\<open>run(K, p)\<close> is one call of \<open>H\<close>'s action on \<open>p\<close>: it ends as that
  call ends and leaves the world that call leaves (started where the condition ended).
  No other handler's action runs: whatever else the map holds, on any controller that
  holds \<open>H\<close> under \<open>K\<close> the call ends the same way and leaves the same world.
\<close>

theorem run_invokes_registered_action:
  assumes "pluginMap this K = Some H" and "condition H K w = (Inr True, w')"
  shows "run K p this w = (fst (action H p w'), this, snd (action H p w')) \<and>
         (\<forall>that. pluginMap that K = Some H \<longrightarrow>
            ended (run K p that w) = ended (run K p this w) \<and>
            world_after (run K p that w) = world_after (run K p this w))"
proof -
  have one: "run K p c w = (fst (action H p w'), c, snd (action H p w'))"
    if "pluginMap c K = Some H" for c
    using that assms(2) by (simp add: run_def split: prod.splits)
  show ?thesis
    using assms(1) by (simp add: one ended_def world_after_def)
qed

theorem run_invokes_registered_action_witness:
  "pluginMap installed (Str ''A'') = Some casePluginA \<and>
   condition (casePluginA :: (unit, world) CasePlugin) (Str ''A'') loaded = (Inr True, loaded) \<and>
   run (Str ''A'') () installed loaded =
     (Inr (), installed, loaded\<lparr>dialogs := [Confirm ''I am A case'']\<rparr>)"
proof -
  have reg: "pluginMap installed (Str ''A'') = Some casePluginA"
    by (simp add: installed_pluginMap)
  have holds:
    "condition (casePluginA :: (unit, world) CasePlugin) (Str ''A'') loaded = (Inr True, loaded)"
    by (simp add: casePluginA_def)
  have act: "action (casePluginA :: (unit, world) CasePlugin) () loaded
        = (Inr (), loaded\<lparr>dialogs := [Confirm ''I am A case'']\<rparr>)"
    by (simp add: casePluginA_def confirm_def loaded_def)
  show ?thesis
    using reg holds run_invokes_registered_action [OF reg holds, of "()", THEN conjunct1]
    unfolding act by simp
qed

text \<open>
  The claim that \<^verbatim>\<open>run("")\<close> throws the invalid-parameter error whatever the map holds
  fails already on the new controller: the error is the one of the failed lookup.
\<close>

theorem run_empty_tag_counterexample:
  "run (Str '''') () pluginController loaded = (Inl NotRegistered, pluginController, loaded) \<and>
   ended (run (Str '''') () pluginController loaded) \<noteq> Inl InvalidInput"
  by (simp add: run_def ended_def pluginController_def new_PluginController_def)

text \<open>
  C2, as amended. \<^verbatim>\<open>run\<close> has no check of its own for the empty tag: when no handler
  is registered under \<^verbatim>\<open>""\<close>, \<^verbatim>\<open>run("")\<close> throws the error of the failed lookup, with
  the controller and the world untouched, so no action has run. The invalid-parameter
  error for \<^verbatim>\<open>""\<close> is thrown by \<^verbatim>\<open>handleType\<close> and \<^verbatim>\<open>handleTypeBySwitch\<close>, before they
  do anything else.
\<close>

theorem run_empty_tag:
  "(pluginMap this (Str '''') = None \<longrightarrow>
      run (Str '''') p this w = (Inl NotRegistered, this, w)) \<and>
   handleType '''' v = (Inl InvalidInput, v) \<and>
   handleTypeBySwitch '''' v = (Inl InvalidInput, v)"
  by (simp add: run_def handleType_def handleTypeBySwitch_def)

theorem run_empty_tag_witness:
  "pluginMap installed (Str '''') = None \<and>
   run (Str '''') () installed loaded = (Inl NotRegistered, installed, loaded) \<and>
   handleType '''' loaded = (Inl InvalidInput, loaded) \<and>
   handleTypeBySwitch '''' loaded = (Inl InvalidInput, loaded)"
proof -
  have absent: "pluginMap installed (Str '''') = None"
    by (simp add: installed_pluginMap)
  show ?thesis
    using absent run_empty_tag [of installed "()" loaded loaded] by blast
qed

text \<open>
  C3. The compound-key scenario as line 188 of the demo writes it: the three plugins
  installed, then \<^verbatim>\<open>run(["B", "C"])\<close> on an array literal. The literal is a new object
  (address 1), the map holds \<^verbatim>\<open>casePluginBOrC\<close> under the object at address 0, and
  the lookup compares identities: \<^verbatim>\<open>run\<close> throws the error of the failed lookup and
  no dialog is shown.
\<close>

theorem run_fresh_array_throws:
  "alloc [''B'', ''C''] loaded =
     (Ref 1, loaded\<lparr>arrays := [[''B'', ''C''], [''B'', ''C'']]\<rparr>) \<and>
   run (Ref 1) () installed (loaded\<lparr>arrays := [[''B'', ''C''], [''B'', ''C'']]\<rparr>) =
     (Inl NotRegistered, installed, loaded\<lparr>arrays := [[''B'', ''C''], [''B'', ''C'']]\<rparr>)"
  by (simp add: alloc_def loaded_def run_def installed_pluginMap)

text \<open>
  C4. When the map holds no handler under key \<open>K\<close>, \<^verbatim>\<open>run(K, p)\<close> throws the error of the
  failed lookup; the world is the one it started in, so no action (and no condition) has
  run.
\<close>

theorem run_unregistered_throws:
  assumes "pluginMap this K = None"
  shows "run K p this w = (Inl NotRegistered, this, w)"
  using assms by (simp add: run_def)

theorem run_unregistered_throws_witness:
  "pluginMap (controller_after (use casePluginA pluginController loaded)) (Str ''B'') = None \<and>
   run (Str ''B'') () (controller_after (use casePluginA pluginController loaded)) loaded =
     (Inl NotRegistered, controller_after (use casePluginA pluginController loaded), loaded)"
proof -
  have absent:
    "pluginMap (controller_after (use casePluginA pluginController loaded)) (Str ''B'') = None"
    by (simp add: use_def controller_after_def casePluginA_def pluginController_def
        new_PluginController_def)
  show ?thesis
    using absent run_unregistered_throws [OF absent, of "()" loaded] by simp
qed

section \<open>Registering and removing\<close>

text \<open>
  C5. \<^verbatim>\<open>use\<close> overwrites per key: for two handlers of the same \<^verbatim>\<open>targetTypes\<close>,
  \<^verbatim>\<open>use(H1)\<close> then \<^verbatim>\<open>use(H2)\<close> leaves exactly what \<^verbatim>\<open>use(H2)\<close> alone leaves, the key
  holds \<open>H2\<close>, and \<^verbatim>\<open>run\<close> on the key is \<^verbatim>\<open>run\<close> with only \<open>H2\<close> registered.
  \<^verbatim>\<open>installPlugins\<close> is \<^verbatim>\<open>use\<close> on each element from the first to the last, and after it
  a key holds the last element of the list that has this key (what the map held before,
  when no element has it).
\<close>

theorem use_overwrites:
  "(targetTypes H1 = targetTypes H2 \<longrightarrow>
      next_stmt (use H1 this w) (use H2) = use H2 this w \<and>
      pluginMap (controller_after (next_stmt (use H1 this w) (use H2))) (targetTypes H1) =
        Some H2 \<and>
      run (targetTypes H1) p (controller_after (next_stmt (use H1 this w) (use H2))) w' =
        run (targetTypes H2) p (controller_after (use H2 this w)) w') \<and>
   installPlugins ps this w = foldl (\<lambda>r q. next_stmt r (use q)) (Inr (), this, w) ps \<and>
   pluginMap (controller_after (installPlugins ps this w)) K =
     (case find (\<lambda>q. targetTypes q = K) (rev ps) of
        Some q \<Rightarrow> Some q
      | None \<Rightarrow> pluginMap this K)"
proof -
  have "next_stmt (use H1 this w) (use H2) = use H2 this w"
    if "targetTypes H1 = targetTypes H2"
    using that by (simp add: next_stmt_def use_def)
  moreover have "pluginMap (controller_after (use H2 this w)) (targetTypes H2) = Some H2"
    by (simp add: use_def controller_after_def)
  ultimately show ?thesis
    using installPlugins_foldl [of ps this w] installPlugins_pluginMap [of ps this w K]
    by simp
qed

theorem use_overwrites_witness:
  "targetTypes (casePluginA :: (unit, world) CasePlugin) =
     targetTypes (casePluginA\<lparr>action := action casePluginN\<rparr> :: (unit, world) CasePlugin) \<and>
   run (Str ''A'') ()
     (controller_after (next_stmt (use casePluginA pluginController loaded)
        (use (casePluginA\<lparr>action := action casePluginN\<rparr>)))) loaded =
     (Inr (),
      controller_after (use (casePluginA\<lparr>action := action casePluginN\<rparr>) pluginController loaded),
      loaded\<lparr>dialogs := [Confirm ''I am N case'']\<rparr>) \<and>
   pluginMap (controller_after
      (installPlugins [casePluginA, casePluginN, casePluginA\<lparr>action := action casePluginN\<rparr>]
         pluginController loaded)) (Str ''A'') =
     Some (casePluginA\<lparr>action := action casePluginN\<rparr>)"
proof -
  let ?H2 = "casePluginA\<lparr>action := action casePluginN\<rparr> :: (unit, world) CasePlugin"
  note inst = use_overwrites [of casePluginA ?H2 pluginController loaded "()" loaded
        "[casePluginA, casePluginN, ?H2]" "Str ''A''"]
  have same: "targetTypes (casePluginA :: (unit, world) CasePlugin) = targetTypes ?H2"
    by simp
  have dispatch:
    "run (Str ''A'') () (controller_after (use ?H2 pluginController loaded)) loaded =
       (Inr (), controller_after (use ?H2 pluginController loaded),
        loaded\<lparr>dialogs := [Confirm ''I am N case'']\<rparr>)"
    by (simp add: run_def use_def controller_after_def casePluginA_def casePluginN_def
        confirm_def loaded_def)
  have seq: "next_stmt (use casePluginA pluginController loaded) (use ?H2) =
      use ?H2 pluginController loaded"
    using inst [THEN conjunct1] same by blast
  have last:
    "find (\<lambda>q. targetTypes q = Str ''A'') (rev [casePluginA, casePluginN, ?H2]) = Some ?H2"
    by (simp add: casePluginA_def)
  have later: "pluginMap (controller_after
      (installPlugins [casePluginA, casePluginN, ?H2] pluginController loaded)) (Str ''A'') =
      Some ?H2"
    unfolding inst [THEN conjunct2, THEN conjunct2] last by simp
  show ?thesis
    using same later dispatch unfolding seq by blast
qed



text \<open>
  C7. \<^verbatim>\<open>clearPlugins\<close> returns without an error and leaves the controller that
  \<^verbatim>\<open>new PluginController()\<close> makes; \<^verbatim>\<open>run\<close> on it throws the error of the failed lookup
  for every key, the keys registered before among them.
\<close>

theorem clearPlugins_empties:
  "clearPlugins this w = (Inr (), new_PluginController, w) \<and>
   run K p (controller_after (clearPlugins this w)) w' =
     (Inl NotRegistered, new_PluginController, w')"
  by (simp add: clearPlugins_def new_PluginController_def controller_after_def run_def)

text \<open>
  C8. When the map holds handler \<open>H\<close> under key \<open>K\<close> and \<open>H\<close>'s condition, called on
  \<open>K\<close>, returns false, \<^verbatim>\<open>run(K, p)\<close> returns without an error and the world is the one
  the condition left: no action has run.
\<close>

theorem run_declines_silently:
  assumes "pluginMap this K = Some H" and "condition H K w = (Inr False, w')"
  shows "run K p this w = (Inr (), this, w')"
  using assms by (simp add: run_def)

theorem run_declines_silently_witness:
  "pluginMap
     (controller_after (use (casePluginN\<lparr>targetTypes := Str ''A''\<rparr>) pluginController loaded))
     (Str ''A'') = Some (casePluginN\<lparr>targetTypes := Str ''A''\<rparr>) \<and>
   condition (casePluginN\<lparr>targetTypes := Str ''A''\<rparr> :: (unit, world) CasePlugin)
     (Str ''A'') loaded = (Inr False, loaded) \<and>
   run (Str ''A'') ()
     (controller_after (use (casePluginN\<lparr>targetTypes := Str ''A''\<rparr>) pluginController loaded))
     loaded =
     (Inr (),
      controller_after (use (casePluginN\<lparr>targetTypes := Str ''A''\<rparr>) pluginController loaded),
      loaded)"
proof -
  let ?H = "casePluginN\<lparr>targetTypes := Str ''A''\<rparr> :: (unit, world) CasePlugin"
  have reg: "pluginMap (controller_after (use ?H pluginController loaded)) (Str ''A'') = Some ?H"
    by (simp add: use_def controller_after_def)
  have declines: "condition ?H (Str ''A'') loaded = (Inr False, loaded)"
    by (simp add: casePluginN_def)
  show ?thesis
    using reg declines run_declines_silently [OF reg declines, of "()"] by blast
qed

text \<open>
  That the map after \<^verbatim>\<open>run\<close> is always the map before fails for a handler that calls
  back: with \<open>clearing\<close> installed under \<^verbatim>\<open>"A"\<close>, \<^verbatim>\<open>run("A")\<close> returns normally and the
  map is empty.
\<close>

theorem run_mutates_counterexample:
  "run_reentrant (\<lambda>a. clearing) (Str ''A'') ()
     (snd (use_reentrant (\<lambda>a. clearing) 0 \<lparr>registry = Map.empty, outside = loaded\<rparr>)) =
     (Inr (), \<lparr>registry = Map.empty, outside = loaded\<rparr>) \<and>
   registry (snd (use_reentrant (\<lambda>a. clearing) 0 \<lparr>registry = Map.empty, outside = loaded\<rparr>))
     (Str ''A'') = Some 0 \<and>
   registry (snd (run_reentrant (\<lambda>a. clearing) (Str ''A'') ()
     (snd (use_reentrant (\<lambda>a. clearing) 0 \<lparr>registry = Map.empty, outside = loaded\<rparr>)))) \<noteq>
   registry (snd (use_reentrant (\<lambda>a. clearing) 0 \<lparr>registry = Map.empty, outside = loaded\<rparr>))"
proof -
  let ?m = "snd (use_reentrant (\<lambda>a. clearing) 0 \<lparr>registry = Map.empty, outside = loaded\<rparr>)"
  have before: "?m = \<lparr>registry = [Str ''A'' \<mapsto> 0], outside = loaded\<rparr>"
    by (simp add: use_reentrant_def clearing_def)
  have after: "run_reentrant (\<lambda>a. clearing) (Str ''A'') () ?m =
      (Inr (), \<lparr>registry = Map.empty, outside = loaded\<rparr>)"
    unfolding before
    by (simp add: run_reentrant_def clearing_def clearPlugins_reentrant_def)
  have "[Str ''A'' \<mapsto> 0::nat] (Str ''A'') \<noteq> Map.empty (Str ''A'')"
    by simp
  then have differ: "Map.empty \<noteq> [Str ''A'' \<mapsto> 0::nat]"
    by metis
  show ?thesis
    unfolding after unfolding before using differ by simp
qed

text \<open>
  C9, as amended. \<^verbatim>\<open>run\<close> itself never writes to the map. For every state and every
  input: if the handler found under the input, when there is one, leaves the map as it
  found it in its condition call and, when the condition holds, in its action call (it
  does not call \<^verbatim>\<open>use\<close>, \<^verbatim>\<open>unuse\<close> or \<^verbatim>\<open>clearPlugins\<close> on the controller that runs it),
  then the map after \<^verbatim>\<open>run\<close> is the map before it, whichever way \<^verbatim>\<open>run\<close> ends: the
  throw of the failed lookup, a throw of the condition or the action, the silent return,
  the return after the action.
\<close>

theorem run_keeps_registry:
  assumes "\<forall>plugin. registry m K = Some plugin \<longrightarrow>
             registry (snd (on_condition (objects plugin) K m)) = registry m"
    and "\<forall>plugin m1. registry m K = Some plugin \<longrightarrow>
             on_condition (objects plugin) K m = (Inr True, m1) \<longrightarrow>
             registry (snd (on_action (objects plugin) p m1)) = registry m1"
  shows "registry (snd (run_reentrant objects K p m)) = registry m"
proof (cases "registry m K")
  case None
  then show ?thesis by (simp add: run_reentrant_def)
next
  case (Some plugin)
  obtain r m1 where c: "on_condition (objects plugin) K m = (r, m1)"
    by (cases "on_condition (objects plugin) K m")
  have same: "registry m1 = registry m"
    using assms(1) Some c by fastforce
  show ?thesis
  proof (cases r)
    case (Inl e)
    with Some c same show ?thesis by (simp add: run_reentrant_def)
  next
    case (Inr b)
    show ?thesis
    proof (cases b)
      case True
      with Inr c have "on_condition (objects plugin) K m = (Inr True, m1)" by simp
      with assms(2) Some have "registry (snd (on_action (objects plugin) p m1)) = registry m1"
        by blast
      with Some c Inr True same show ?thesis by (simp add: run_reentrant_def)
    next
      case False
      with Some c Inr same show ?thesis by (simp add: run_reentrant_def)
    qed
  qed
qed

theorem run_keeps_registry_witness:
  "registry \<lparr>registry = [Str ''A'' \<mapsto> 0], outside = loaded\<rparr> (Str ''A'') = Some 0 \<and>
   on_condition (detached (casePluginA :: (unit, world) CasePlugin)) (Str ''A'')
     \<lparr>registry = [Str ''A'' \<mapsto> 0], outside = loaded\<rparr> =
     (Inr True, \<lparr>registry = [Str ''A'' \<mapsto> 0], outside = loaded\<rparr>) \<and>
   run_reentrant (\<lambda>a. detached casePluginA) (Str ''A'') ()
     \<lparr>registry = [Str ''A'' \<mapsto> 0], outside = loaded\<rparr> =
     (Inr (), \<lparr>registry = [Str ''A'' \<mapsto> 0],
               outside = loaded\<lparr>dialogs := [Confirm ''I am A case'']\<rparr>\<rparr>) \<and>
   registry (snd (run_reentrant (\<lambda>a. detached casePluginA) (Str ''A'') ()
     \<lparr>registry = [Str ''A'' \<mapsto> 0], outside = loaded\<rparr>)) = [Str ''A'' \<mapsto> 0]"
proof -
  let ?m = "\<lparr>registry = [Str ''A'' \<mapsto> 0], outside = loaded\<rparr>"
  let ?objects = "\<lambda>a::nat. detached (casePluginA :: (unit, world) CasePlugin)"
  have found: "registry ?m (Str ''A'') = Some 0" by simp
  have holds: "on_condition (?objects 0) (Str ''A'') ?m = (Inr True, ?m)"
    by (simp add: detached_def casePluginA_def)
  have cond: "\<forall>plugin. registry ?m (Str ''A'') = Some plugin \<longrightarrow>
      registry (snd (on_condition (?objects plugin) (Str ''A'') ?m)) = registry ?m"
    by (simp add: detached_def casePluginA_def)
  have act: "\<forall>plugin m1. registry ?m (Str ''A'') = Some plugin \<longrightarrow>
      on_condition (?objects plugin) (Str ''A'') ?m = (Inr True, m1) \<longrightarrow>
      registry (snd (on_action (?objects plugin) () m1)) = registry m1"
    by (simp add: detached_def split: prod.splits)
  have dispatched: "run_reentrant ?objects (Str ''A'') () ?m =
     (Inr (), \<lparr>registry = [Str ''A'' \<mapsto> 0],
               outside = loaded\<lparr>dialogs := [Confirm ''I am A case'']\<rparr>\<rparr>)"
    by (simp add: run_reentrant_def detached_def casePluginA_def confirm_def loaded_def)
  have kept: "registry (snd (run_reentrant ?objects (Str ''A'') () ?m)) = [Str ''A'' \<mapsto> 0]"
    using run_keeps_registry [of ?m "Str ''A''" ?objects "()", OF cond act] by simp
  show ?thesis
    using found holds dispatched kept by blast
qed

text \<open>
  C10. The lookup is by the key itself, never by membership: when the single tag \<open>T\<close> is
  not a key of the map, \<^verbatim>\<open>run(T)\<close> throws the error of the failed lookup, whatever
  compound keys are registered and whether or not \<open>T\<close> is an element of one of them.
  In the demo's map (keys \<^verbatim>\<open>"A"\<close>, the array \<^verbatim>\<open>["B", "C"]\<close> and \<^verbatim>\<open>"N"\<close>) this is
  \<^verbatim>\<open>run("B")\<close>.
\<close>

theorem run_lookup_is_exact:
  assumes "pluginMap this (Str T) = None"
  shows "run (Str T) p this w = (Inl NotRegistered, this, w)"
  using assms by (simp add: run_def)

theorem run_lookup_is_exact_witness:
  "pluginMap installed (Str ''B'') = None \<and>
   pluginMap installed (Ref 0) = Some (casePluginBOrC 0) \<and>
   deref loaded 0 = Some [''B'', ''C''] \<and>
   run (Str ''B'') () installed loaded = (Inl NotRegistered, installed, loaded)"
proof -
  have absent: "pluginMap installed (Str ''B'') = None"
    by (simp add: installed_pluginMap)
  have compound: "pluginMap installed (Ref 0) = Some (casePluginBOrC 0)"
    by (simp add: installed_pluginMap)
  have members: "deref loaded 0 = Some [''B'', ''C'']"
    by (simp add: deref_def loaded_def)
  show ?thesis
    using absent compound members run_lookup_is_exact [OF absent, of "()" loaded] by blast
qed

end
